theory Spec2Isabelle
  imports Complex_Main
begin

section \<open>The CPU CeePos payment provider (payments/providers/cpu\_ceepos.py)\<close>

text \<open>
  A shallow embedding of \<^verbatim>\<open>CPUCeeposProvider\<close>: the checksum engine, the builder of the
  payment-initiation payload, the interpreter of the initiation response and the two
  callback handlers. Python exceptions are values of \<open>error\<close>, a function that can raise
  returns \<open>error + 'a\<close> (\<open>Inl\<close> is the raised exception), and a function that mutates
  an argument or the database returns the new value next to its result.
\<close>

subsection \<open>Python values\<close>

text \<open>
  The values that occur in a payload, in a decoded JSON response and in request
  parameters: strings, integers and \<^verbatim>\<open>None\<close>. A Python \<^verbatim>\<open>str\<close> is modelled by its UTF-8
  bytes, so \<^verbatim>\<open>encode("utf-8")\<close> is the identity and a string is ASCII exactly when every
  byte is below 128. A payload value is a scalar or, for \<^verbatim>\<open>Products\<close>, a list of
  dictionaries of scalars. A \<^verbatim>\<open>dict\<close> whose insertion order matters is an association
  list in insertion order.
\<close>

datatype scalar = PyStr string | PyInt int | PyNone

datatype pyval = Scalar scalar | ItemList "(string \<times> scalar) list list"

type_synonym payload = "(string \<times> pyval) list"

datatype error =
    DuplicateOrderError
  | OrderStateTransitionError
  | PayloadValidationError
  | PaymentCreationFailedError
  | ServiceUnavailableError
  | UnknownReturnCodeError
  | ValueError
  | KeyError
  | TypeError

text \<open>\<^verbatim>\<open>d[k] = v\<close> on an insertion-ordered dictionary: an existing key keeps its place.\<close>

fun dict_set :: "(string \<times> 'v) list \<Rightarrow> string \<Rightarrow> 'v \<Rightarrow> (string \<times> 'v) list" where
  "dict_set [] k v = [(k, v)]"
| "dict_set ((k', v') # kvs) k v =
     (if k' = k then (k, v) # kvs else (k', v') # dict_set kvs k v)"

text \<open>\<^verbatim>\<open>d.update({...})\<close>: the new items are set one by one, in their order.\<close>

fun dict_update :: "(string \<times> 'v) list \<Rightarrow> (string \<times> 'v) list \<Rightarrow> (string \<times> 'v) list" where
  "dict_update d [] = d"
| "dict_update d ((k, v) # kvs) = dict_update (dict_set d k v) kvs"

text \<open>\<^verbatim>\<open>str(val)\<close>: a string is itself, an integer is its decimal digits.\<close>

definition digit_char :: "nat \<Rightarrow> char" where
  "digit_char n = char_of (48 + n)"

fun str_nat :: "nat \<Rightarrow> string" where
  "str_nat n = (if n < 10 then [digit_char n] else str_nat (n div 10) @ [digit_char (n mod 10)])"

declare str_nat.simps [simp del]

definition str_int :: "int \<Rightarrow> string" where
  "str_int i = (if i < 0 then CHR ''-'' # str_nat (nat (- i)) else str_nat (nat i))"

fun str :: "scalar \<Rightarrow> string" where
  "str (PyStr s) = s"
| "str (PyInt i) = str_int i"
| "str PyNone = ''None''"

text \<open>\<^verbatim>\<open>sep.join(xs)\<close>\<close>

fun join :: "string \<Rightarrow> string list \<Rightarrow> string" where
  "join sep [] = []"
| "join sep [x] = x"
| "join sep (x # y # ys) = x @ sep @ join sep (y # ys)"

subsection \<open>The provider and its collaborators\<close>

text \<open>
  \<^verbatim>\<open>hashlib.sha256\<close> is a library function: it is a parameter of the model, from bytes to
  the digest's bytes. \<^verbatim>\<open>hexdigest()\<close> renders every byte of the digest as two lowercase
  hexadecimal digits.
\<close>

definition hex_char :: "nat \<Rightarrow> char" where
  "hex_char n = (if n < 10 then char_of (48 + n) else char_of (87 + n))"

definition hexdigest :: "string \<Rightarrow> string" where
  "hexdigest digest =
     concat (map (\<lambda>b. [hex_char (of_char b div 16), hex_char (of_char b mod 16)]) digest)"

record request =
  http_method :: string
  GET :: "string \<rightharpoonup> string"
  POST :: "string \<rightharpoonup> string"

text \<open>
  \<^verbatim>\<open>self\<close>: the configuration dictionary, the request being handled, and the two URLs
  that the base class (payments/providers/base.py, not part of the sources) computes:
  the results of \<^verbatim>\<open>get_success_url()\<close> and \<^verbatim>\<open>get_notify_url()\<close>.
\<close>

record provider =
  config :: "string \<rightharpoonup> scalar"
  request :: request
  success_url :: string
  notify_url :: string

definition RESPA_PAYMENTS_CEEPOS_API_URL :: string where
  "RESPA_PAYMENTS_CEEPOS_API_URL = ''RESPA_PAYMENTS_CEEPOS_API_URL''"

definition RESPA_PAYMENTS_CEEPOS_API_KEY :: string where
  "RESPA_PAYMENTS_CEEPOS_API_KEY = ''RESPA_PAYMENTS_CEEPOS_API_KEY''"

definition RESPA_PAYMENTS_CEEPOS_API_SECRET :: string where
  "RESPA_PAYMENTS_CEEPOS_API_SECRET = ''RESPA_PAYMENTS_CEEPOS_API_SECRET''"

definition REQUEST_CHECKSUM_PARAMS :: "string list" where
  "REQUEST_CHECKSUM_PARAMS =
     [''Id'', ''Status'', ''Reference'', ''PaymentMethod'', ''PaymentSum'', ''Timestamp'',
      ''PaymentDescription'']"

definition RESPONSE_CHECKSUM_PARAMS :: "string list" where
  "RESPONSE_CHECKSUM_PARAMS =
     [''Id'', ''Status'', ''Reference'', ''Action'', ''PaymentAddress'', ''PaymentExpires'']"

text \<open>\<^verbatim>\<open>self.config.get(key)\<close>: \<^verbatim>\<open>None\<close> for a key that is not configured.\<close>

definition config_get :: "provider \<Rightarrow> string \<Rightarrow> scalar" where
  "config_get self k = (case config self k of None \<Rightarrow> PyNone | Some v \<Rightarrow> v)"

subsection \<open>The checksum engine\<close>

text \<open>
  \<^verbatim>\<open>calculate_checksum\<close> appends the secret to the list it was given (the caller's list
  object), joins the stringified values with \<^verbatim>\<open>&\<close> and hashes. The model returns the
  digest and the list as the call leaves it.
\<close>

definition calculate_checksum ::
  "(string \<Rightarrow> string) \<Rightarrow> scalar list \<Rightarrow> scalar \<Rightarrow> string \<times> scalar list" where
  "calculate_checksum sha256 param_values secret =
     (let param_values' = param_values @ [secret];
          s = join ''&'' (map str param_values')
      in (hexdigest (sha256 s), param_values'))"

text \<open>
  \<^verbatim>\<open>hmac.compare_digest(a, b)\<close>: both arguments must be ASCII strings (or both
  bytes), anything else raises \<^verbatim>\<open>TypeError\<close>.
\<close>

definition isascii :: "string \<Rightarrow> bool" where
  "isascii s = list_all (\<lambda>c. (of_char c :: nat) < 128) s"

fun compare_digest :: "scalar \<Rightarrow> scalar \<Rightarrow> error + bool" where
  "compare_digest (PyStr a) (PyStr b) =
     (if isascii a \<and> isascii b then Inr (a = b) else Inl TypeError)"
| "compare_digest _ _ = Inl TypeError"

text \<open>
  \<^verbatim>\<open>_validate_payload(data, params)\<close>: \<^verbatim>\<open>data["Hash"]\<close> raises \<^verbatim>\<open>KeyError\<close> when the
  message has no \<^verbatim>\<open>Hash\<close>; the values are those of the parameters that the message
  has, in the order of \<^verbatim>\<open>params\<close>.
\<close>

definition validate_payload ::
  "(string \<Rightarrow> string) \<Rightarrow> provider \<Rightarrow> (string \<rightharpoonup> scalar) \<Rightarrow> string list \<Rightarrow> error + bool" where
  "validate_payload sha256 self data params =
     (case data ''Hash'' of
        None \<Rightarrow> Inl KeyError
      | Some checksum_received \<Rightarrow>
          (let checksum_calc_values = List.map_filter data params;
               secret = config_get self RESPA_PAYMENTS_CEEPOS_API_SECRET;
               correct_checksum = fst (calculate_checksum sha256 checksum_calc_values secret)
           in case compare_digest checksum_received (PyStr correct_checksum) of
                Inl e \<Rightarrow> Inl e
              | Inr same \<Rightarrow> if \<not> same then Inr False else Inr True))"

definition validate_ceepos_response ::
  "(string \<Rightarrow> string) \<Rightarrow> provider \<Rightarrow> (string \<rightharpoonup> scalar) \<Rightarrow> error + bool" where
  "validate_ceepos_response sha256 self response =
     validate_payload sha256 self response RESPONSE_CHECKSUM_PARAMS"

text \<open>The values of a \<^verbatim>\<open>QueryDict\<close> are strings.\<close>

definition validate_ceepos_request ::
  "(string \<Rightarrow> string) \<Rightarrow> provider \<Rightarrow> request \<Rightarrow> error + bool" where
  "validate_ceepos_request sha256 self req =
     (let data = (if http_method req = ''POST'' then POST req else GET req)
      in validate_payload sha256 self (map_option PyStr \<circ> data) REQUEST_CHECKSUM_PARAMS)"

text \<open>
  The specification's \<open>computeChecksum\<close> and \<open>verifyChecksum\<close>: the digest of the values
  with the secret appended, and the comparison of a received digest with the one
  recomputed.
\<close>

definition computeChecksum :: "(string \<Rightarrow> string) \<Rightarrow> scalar list \<Rightarrow> scalar \<Rightarrow> string" where
  "computeChecksum sha256 vals secret = hexdigest (sha256 (join ''&'' (map str (vals @ [secret]))))"

definition verifyChecksum ::
  "(string \<Rightarrow> string) \<Rightarrow> scalar \<Rightarrow> scalar list \<Rightarrow> scalar \<Rightarrow> error + bool" where
  "verifyChecksum sha256 received vals secret =
     compare_digest received (PyStr (computeChecksum sha256 vals secret))"

subsection \<open>The initiation response interpreter\<close>

text \<open>
  \<^verbatim>\<open>handle_initiate_payment_response(response)\<close>, on the decoded JSON object. A missing
  \<^verbatim>\<open>Status\<close> or \<^verbatim>\<open>PaymentAddress\<close> is a \<^verbatim>\<open>KeyError\<close>.
\<close>

definition handle_initiate_payment_response ::
  "(string \<Rightarrow> string) \<Rightarrow> provider \<Rightarrow> (string \<rightharpoonup> scalar) \<Rightarrow> error + scalar" where
  "handle_initiate_payment_response sha256 self response =
     (case response ''Status'' of
        None \<Rightarrow> Inl KeyError
      | Some status_code \<Rightarrow>
          if status_code = PyInt 2 then
            (case validate_ceepos_response sha256 self response of
               Inl e \<Rightarrow> Inl e
             | Inr valid \<Rightarrow>
                 if \<not> valid then Inl PayloadValidationError
                 else (case response ''PaymentAddress'' of
                         None \<Rightarrow> Inl KeyError
                       | Some payment_address \<Rightarrow> Inr payment_address))
          else if status_code = PyInt 0 then Inl PaymentCreationFailedError
          else if status_code = PyInt 97 then Inl DuplicateOrderError
          else if status_code = PyInt 98 then Inl ServiceUnavailableError
          else if status_code = PyInt 99 then Inl PayloadValidationError
          else Inl UnknownReturnCodeError)"

subsection \<open>Orders\<close>

text \<open>
  Modelled from the spec: the models \<^verbatim>\<open>Order\<close>, \<^verbatim>\<open>OrderLine\<close>, \<^verbatim>\<open>Product\<close> and
  \<^verbatim>\<open>Reservation\<close> (payments/models.py is not part of the sources). The records hold the
  fields that the provider reads, under the names it reads them by; the states are those
  of the specification. \<open>tax_percentage\<close> and prices are exact decimal numbers;
  \<open>order_lines\<close> is the result of \<^verbatim>\<open>OrderLine.objects.filter(order=order.id)\<close>.
\<close>

datatype order_state = WAITING | CONFIRMED | REJECTED | EXPIRED

record reservation =
  billing_email_address :: string
  billing_first_name :: string
  billing_last_name :: string

record product =
  sku :: string
  name :: string
  tax_percentage :: rat

record order_line =
  product :: product
  quantity :: int

record order =
  order_number :: string
  state :: order_state
  reservation :: reservation
  order_lines :: "order_line list"
  log_entries :: "string list"

text \<open>
  What \<^verbatim>\<open>requests.post\<close> does: it raises a \<^verbatim>\<open>RequestException\<close> (no connection, a
  timeout), or returns a response with a status code and a body, which is taken to be a
  JSON object of strings, integers and nulls.
\<close>

datatype post_result = RequestException | Response nat "string \<rightharpoonup> scalar"

text \<open>
  The collaborators outside the provider, as parameters: the hash function, the price of
  a product for a reservation (\<^verbatim>\<open>Product.get_price_for_reservation\<close>), its conversion to
  minor currency units (\<^verbatim>\<open>price_as_sub_units\<close> of payments/utils.py) and the network.
\<close>

record env =
  hashlib_sha256 :: "string \<Rightarrow> string"
  get_price_for_reservation :: "product \<Rightarrow> reservation \<Rightarrow> rat"
  price_as_sub_units :: "rat \<Rightarrow> int"
  requests_post :: "scalar \<Rightarrow> payload \<Rightarrow> post_result"

text \<open>
  The state that the entry points act on: the orders in the database, by order number,
  and the requests that were sent to the payment API (URL and JSON body).
\<close>

record world =
  orders :: "string \<rightharpoonup> order"
  requests_sent :: "(scalar \<times> payload) list"

subsection \<open>The payload builder\<close>

text \<open>\<^verbatim>\<open>int(d)\<close> of a decimal number truncates towards zero.\<close>

definition py_int :: "rat \<Rightarrow> int" where
  "py_int x = (if 0 \<le> x then \<lfloor>x\<rfloor> else \<lceil>x\<rceil>)"

text \<open>
  \<^verbatim>\<open>get_product_taxcode\<close>: the table is looked up at \<^verbatim>\<open>int(tax * 1_000_000)\<close>;
  \<^verbatim>\<open>not taxcode\<close> holds for \<^verbatim>\<open>None\<close> and for the empty string.
\<close>

definition get_product_taxcode :: "product \<Rightarrow> error + string" where
  "get_product_taxcode p =
     (let tax = tax_percentage p;
          taxcode = map_of [(24000000, ''24''), (14000000, ''14''), (10000000, ''10''), (0, ''0'')]
                      (py_int (tax * 1000000))
      in case taxcode of
           None \<Rightarrow> Inl ValueError
         | Some c \<Rightarrow> if c = [] then Inl ValueError else Inr c)"

text \<open>
  The loop of \<^verbatim>\<open>payload_add_products\<close>. \<^verbatim>\<open>payload["Products"] = items\<close> stands inside
  the loop body: it is executed once per order line, with the list as it is then.
\<close>

fun payload_add_products_loop ::
  "env \<Rightarrow> reservation \<Rightarrow> payload \<Rightarrow> (string \<times> scalar) list list \<Rightarrow> order_line list
     \<Rightarrow> error + payload" where
  "payload_add_products_loop env res payload items [] = Inr payload"
| "payload_add_products_loop env res payload items (order_line # rest) =
     (let p = product order_line in
      case get_product_taxcode p of
        Inl e \<Rightarrow> Inl e
      | Inr taxcode \<Rightarrow>
          (let items' = items @
                 [[(''Code'', PyStr (sku p)),
                   (''Amount'', PyInt (quantity order_line)),
                   (''Price'', PyInt (price_as_sub_units env (get_price_for_reservation env p res))),
                   (''Description'', PyStr (name p)),
                   (''Taxcode'', PyStr taxcode)]]
           in payload_add_products_loop env res
                (dict_set payload ''Products'' (ItemList items')) items' rest))"

definition payload_add_products :: "env \<Rightarrow> payload \<Rightarrow> order \<Rightarrow> error + payload" where
  "payload_add_products env payload ord =
     payload_add_products_loop env (reservation ord) payload [] (order_lines ord)"

definition payload_add_customer :: "payload \<Rightarrow> order \<Rightarrow> payload" where
  "payload_add_customer payload ord =
     (let res = reservation ord in
      dict_update payload
        [(''Email'', Scalar (PyStr (billing_email_address res))),
         (''FirstName'', Scalar (PyStr (billing_first_name res))),
         (''LastName'', Scalar (PyStr (billing_last_name res)))])"

definition payload_add_return_and_notification_urls :: "provider \<Rightarrow> payload \<Rightarrow> payload" where
  "payload_add_return_and_notification_urls self payload =
     dict_update payload
       [(''ReturnAddress'', Scalar (PyStr (success_url self))),
        (''NotificationAddress'', Scalar (PyStr (notify_url self)))]"

text \<open>
  The loops of \<^verbatim>\<open>payload_add_checksum\<close>: \<^verbatim>\<open>extend(item.values())\<close> for every item
  of a list value, \<^verbatim>\<open>append(value)\<close> for any other value.
\<close>

fun extend_item_values :: "scalar list \<Rightarrow> (string \<times> scalar) list list \<Rightarrow> scalar list" where
  "extend_item_values checksum_calc_values [] = checksum_calc_values"
| "extend_item_values checksum_calc_values (item # items) =
     extend_item_values (checksum_calc_values @ map snd item) items"

fun collect_checksum_values :: "scalar list \<Rightarrow> payload \<Rightarrow> scalar list" where
  "collect_checksum_values checksum_calc_values [] = checksum_calc_values"
| "collect_checksum_values checksum_calc_values ((key, v) # rest) =
     (case v of
        ItemList items \<Rightarrow>
          collect_checksum_values (extend_item_values checksum_calc_values items) rest
      | Scalar s \<Rightarrow> collect_checksum_values (checksum_calc_values @ [s]) rest)"

definition payload_add_checksum :: "(string \<Rightarrow> string) \<Rightarrow> payload \<Rightarrow> scalar \<Rightarrow> payload" where
  "payload_add_checksum sha256 payload secret =
     (let checksum_calc_values = collect_checksum_values [] payload
      in dict_set payload ''Hash''
           (Scalar (PyStr (fst (calculate_checksum sha256 checksum_calc_values secret)))))"

text \<open>
  \<^verbatim>\<open>initiate_payment\<close>, in two parts: the payload it builds before the \<^verbatim>\<open>try\<close>, and the
  whole method. \<^verbatim>\<open>order_number\<close> is a string, so \<^verbatim>\<open>str(order.order_number)\<close> is the
  order number. \<^verbatim>\<open>raise_for_status()\<close> raises for the status codes 400 to 599. A
  \<^verbatim>\<open>RequestException\<close> becomes \<^verbatim>\<open>ServiceUnavailableError\<close>; any other exception
  propagates.
\<close>

definition initiate_payment_payload :: "env \<Rightarrow> provider \<Rightarrow> order \<Rightarrow> error + payload" where
  "initiate_payment_payload env self ord =
     (let payload =
            [(''ApiVersion'', Scalar (PyStr ''3.0.0'')),
             (''Source'', Scalar (config_get self RESPA_PAYMENTS_CEEPOS_API_KEY)),
             (''Id'', Scalar (PyStr (order_number ord))),
             (''Mode'', Scalar (PyInt 3)),
             (''Action'', Scalar (PyStr ''new payment''))];
          secret = config_get self RESPA_PAYMENTS_CEEPOS_API_SECRET
      in case payload_add_products env payload ord of
           Inl e \<Rightarrow> Inl e
         | Inr payload1 \<Rightarrow>
             (let payload2 = payload_add_customer payload1 ord;
                  payload3 = payload_add_return_and_notification_urls self payload2
              in Inr (payload_add_checksum (hashlib_sha256 env) payload3 secret)))"

definition initiate_payment ::
  "env \<Rightarrow> provider \<Rightarrow> world \<Rightarrow> order \<Rightarrow> (error + scalar) \<times> world" where
  "initiate_payment env self w ord =
     (case initiate_payment_payload env self ord of
        Inl e \<Rightarrow> (Inl e, w)
      | Inr payload \<Rightarrow>
          (let url_payment_api = config_get self RESPA_PAYMENTS_CEEPOS_API_URL;
               w' = w\<lparr>requests_sent := requests_sent w @ [(url_payment_api, payload)]\<rparr>
           in case requests_post env url_payment_api payload of
                RequestException \<Rightarrow> (Inl ServiceUnavailableError, w')
              | Response status_code body \<Rightarrow>
                  if 400 \<le> status_code \<and> status_code < 600
                  then (Inl ServiceUnavailableError, w')
                  else (handle_initiate_payment_response (hashlib_sha256 env) self body, w')))"

text \<open>
  The specification's flattening of a payload: the values in insertion order, each entry
  of a list-valued field contributing its values in its own insertion order.
\<close>

definition flattened_values :: "payload \<Rightarrow> scalar list" where
  "flattened_values payload =
     concat (map (\<lambda>(key, v). case v of Scalar s \<Rightarrow> [s]
                                     | ItemList items \<Rightarrow> concat (map (map snd) items)) payload)"

text \<open>The entry of \<^verbatim>\<open>Products\<close> for one order line whose tax code is \<open>taxcode\<close>.\<close>

definition product_item :: "env \<Rightarrow> reservation \<Rightarrow> order_line \<Rightarrow> string \<Rightarrow> (string \<times> scalar) list" where
  "product_item env res order_line taxcode =
     [(''Code'', PyStr (sku (product order_line))),
      (''Amount'', PyInt (quantity order_line)),
      (''Price'', PyInt (price_as_sub_units env
                          (get_price_for_reservation env (product order_line) res))),
      (''Description'', PyStr (name (product order_line))),
      (''Taxcode'', PyStr taxcode)]"

text \<open>
  The entries for all order lines, in the order of the lines (the tax code of a line
  whose tax percentage is supported; the payload is not built otherwise).
\<close>

definition product_items :: "env \<Rightarrow> reservation \<Rightarrow> order_line list \<Rightarrow> (string \<times> scalar) list list" where
  "product_items env res lines =
     map (\<lambda>order_line. product_item env res order_line
            (case get_product_taxcode (product order_line) of
               Inl e \<Rightarrow> []
             | Inr taxcode \<Rightarrow> taxcode)) lines"

text \<open>
  The specification's fields of an initiation payload before the checksum, in its
  insertion order.
\<close>

definition initiation_fields :: "env \<Rightarrow> provider \<Rightarrow> order \<Rightarrow> payload" where
  "initiation_fields env self ord =
     [(''ApiVersion'', Scalar (PyStr ''3.0.0'')),
      (''Source'', Scalar (config_get self RESPA_PAYMENTS_CEEPOS_API_KEY)),
      (''Id'', Scalar (PyStr (order_number ord))),
      (''Mode'', Scalar (PyInt 3)),
      (''Action'', Scalar (PyStr ''new payment'')),
      (''Products'', ItemList (product_items env (reservation ord) (order_lines ord))),
      (''Email'', Scalar (PyStr (billing_email_address (reservation ord)))),
      (''FirstName'', Scalar (PyStr (billing_first_name (reservation ord)))),
      (''LastName'', Scalar (PyStr (billing_last_name (reservation ord)))),
      (''ReturnAddress'', Scalar (PyStr (success_url self))),
      (''NotificationAddress'', Scalar (PyStr (notify_url self)))]"

subsection \<open>The order state driver\<close>

text \<open>
  Modelled from the spec: \<^verbatim>\<open>Order.set_state\<close> and \<^verbatim>\<open>Order.create_log_entry\<close>
  (payments/models.py is not part of the sources). WAITING is the only state that can be
  left; a request for the state the order is in already changes nothing and is no error;
  any other request is an illegal transition, which raises
  \<^verbatim>\<open>OrderStateTransitionError\<close> and leaves the order as it was. A transition that
  applies records its audit note.
\<close>

definition set_state :: "order \<Rightarrow> order_state \<Rightarrow> string \<Rightarrow> error + order" where
  "set_state ord new_state log_message =
     (if state ord = new_state then Inr ord
      else if state ord = WAITING
      then Inr (ord\<lparr>state := new_state, log_entries := log_entries ord @ [log_message]\<rparr>)
      else Inl OrderStateTransitionError)"

definition create_log_entry :: "order \<Rightarrow> string \<Rightarrow> order" where
  "create_log_entry ord message = ord\<lparr>log_entries := log_entries ord @ [message]\<rparr>"

subsection \<open>The callback handlers\<close>

text \<open>
  Modelled from the spec: the responses of the web layer. \<^verbatim>\<open>ui_redirect_success\<close> and
  \<^verbatim>\<open>ui_redirect_failure\<close> belong to the base class of the provider (not part of the
  sources); they build a redirect to the UI for the order, if there is one.
\<close>

datatype http_response =
    HttpResponse nat
  | UiRedirectSuccess string
  | UiRedirectFailure "string option"

definition ui_redirect_success :: "order \<Rightarrow> http_response" where
  "ui_redirect_success ord = UiRedirectSuccess (order_number ord)"

definition ui_redirect_failure :: "order option \<Rightarrow> http_response" where
  "ui_redirect_failure ord = UiRedirectFailure (map_option order_number ord)"

text \<open>\<^verbatim>\<open>order.save()\<close> and the log entry write the row that was read.\<close>

definition save :: "world \<Rightarrow> string \<Rightarrow> order \<Rightarrow> world" where
  "save w oid ord = w\<lparr>orders := (orders w)(oid \<mapsto> ord)\<rparr>"

text \<open>
  \<^verbatim>\<open>handle_success_request\<close>. \<^verbatim>\<open>request.GET["Id"]\<close> and \<^verbatim>\<open>request.GET["Status"]\<close>
  raise \<^verbatim>\<open>KeyError\<close> for a missing parameter; \<^verbatim>\<open>Order.DoesNotExist\<close> is caught.
\<close>

definition handle_success_request ::
  "(string \<Rightarrow> string) \<Rightarrow> provider \<Rightarrow> world \<Rightarrow> (error + http_response) \<times> world" where
  "handle_success_request sha256 self w =
     (let req = request self in
      case validate_ceepos_request sha256 self req of
        Inl e \<Rightarrow> (Inl e, w)
      | Inr valid \<Rightarrow>
          if \<not> valid then (Inr (ui_redirect_failure None), w)
          else
            (case GET req ''Id'' of
               None \<Rightarrow> (Inl KeyError, w)
             | Some oid \<Rightarrow>
                 (case orders w oid of
                    None \<Rightarrow> (Inr (ui_redirect_failure None), w)
                  | Some ord \<Rightarrow>
                      (case GET req ''Status'' of
                         None \<Rightarrow> (Inl KeyError, w)
                       | Some status_code \<Rightarrow>
                           if status_code = ''1'' then
                             (case set_state ord CONFIRMED
                                     ''Code 1 (payment succeeded) in CeePos success request.'' of
                                Inr ord' \<Rightarrow> (Inr (ui_redirect_success ord'), save w oid ord')
                              | Inl OrderStateTransitionError \<Rightarrow>
                                  (let ord' = create_log_entry ord
                                         ''Code 1 (payment succeeded) in CeePos success request.''
                                   in (Inr (ui_redirect_failure (Some ord')), save w oid ord'))
                              | Inl e \<Rightarrow> (Inl e, w))
                           else if status_code = ''0'' then
                             (case set_state ord REJECTED
                                     ''Code 0 (payment failed) in CeePos success request.'' of
                                Inr ord' \<Rightarrow>
                                  (Inr (ui_redirect_failure (Some ord')), save w oid ord')
                              | Inl OrderStateTransitionError \<Rightarrow>
                                  (let ord' = create_log_entry ord
                                         ''Code 0 (payment failed) in CeePos success request.''
                                   in (Inr (ui_redirect_failure (Some ord')), save w oid ord'))
                              | Inl e \<Rightarrow> (Inl e, w))
                           else if status_code = ''98'' then
                             (let ord' = create_log_entry ord ''Code 98: CeePos system error''
                              in (Inr (ui_redirect_failure (Some ord')), save w oid ord'))
                           else
                             (let ord' = create_log_entry ord
                                    (''CeePos incorrect status code '' @ [CHR 0x22] @ status_code
                                       @ [CHR 0x22] @ ''.'')
                              in (Inr (ui_redirect_failure (Some ord')), save w oid ord'))))))"

text \<open>
  \<^verbatim>\<open>handle_notify_request\<close>. \<^verbatim>\<open>request.POST.get(...)\<close> is \<^verbatim>\<open>None\<close> for a missing
  parameter, and no order has the number \<^verbatim>\<open>None\<close>.
\<close>

definition handle_notify_request ::
  "(string \<Rightarrow> string) \<Rightarrow> provider \<Rightarrow> world \<Rightarrow> (error + http_response) \<times> world" where
  "handle_notify_request sha256 self w =
     (let req = request self in
      case validate_ceepos_request sha256 self req of
        Inl e \<Rightarrow> (Inl e, w)
      | Inr valid \<Rightarrow>
          if \<not> valid then (Inr (HttpResponse 200), w)
          else
            (case (case POST req ''Id'' of None \<Rightarrow> None | Some oid \<Rightarrow>
                     map_option (Pair oid) (orders w oid)) of
               None \<Rightarrow> (Inr (HttpResponse 200), w)
             | Some (oid, ord) \<Rightarrow>
                 (let status_code = POST req ''Status'' in
                  if status_code = Some ''1'' then
                    (case set_state ord CONFIRMED
                            ''Code 1 (payment succeeded) in CeePos notify request.'' of
                       Inr ord' \<Rightarrow> (Inr (HttpResponse 200), save w oid ord')
                     | Inl OrderStateTransitionError \<Rightarrow> (Inr (HttpResponse 200), w)
                     | Inl e \<Rightarrow> (Inl e, w))
                  else if status_code = Some ''0'' then
                    (case set_state ord REJECTED
                            ''Code 0 (payment failed) in CeePos notify request.'' of
                       Inr ord' \<Rightarrow> (Inr (HttpResponse 200), save w oid ord')
                     | Inl OrderStateTransitionError \<Rightarrow> (Inr (HttpResponse 200), w)
                     | Inl e \<Rightarrow> (Inl e, w))
                  else if status_code = Some ''98'' then (Inr (HttpResponse 200), w)
                  else (Inr (HttpResponse 200), w))))"

subsection \<open>The fixtures of the test suite\<close>

text \<open>
  \<^verbatim>\<open>provider_base_config\<close> and a provider built from it (payments/tests/test\_cpu\_ceepos.py),
  an order with two products, and collaborators for the examples: a stand-in for the hash
  function (the identity) and a network that answers as the mocked response does.
\<close>

definition provider_base_config :: "string \<rightharpoonup> scalar" where
  "provider_base_config =
     [''RESPA_PAYMENTS_CEEPOS_API_URL'' \<mapsto> PyStr ''https://real-ceepos-api-url/maksu.html'',
      ''RESPA_PAYMENTS_CEEPOS_API_KEY'' \<mapsto> PyStr ''dummy-key'',
      ''RESPA_PAYMENTS_CEEPOS_API_SECRET'' \<mapsto> PyStr ''123'']"

definition create_ceepos_provider :: "request \<Rightarrow> provider" where
  "create_ceepos_provider req =
     \<lparr>config = provider_base_config, request = req,
      success_url = ''https://front-end-url/success'',
      notify_url = ''https://front-end-url/notify''\<rparr>"

definition payment_provider :: provider where
  "payment_provider =
     create_ceepos_provider \<lparr>http_method = ''GET'', GET = Map.empty, POST = Map.empty\<rparr>"

definition order_with_products :: order where
  "order_with_products =
     \<lparr>order_number = ''abc123'', state = WAITING,
      reservation = \<lparr>billing_email_address = ''test@example.com'',
                     billing_first_name = ''Seppo'', billing_last_name = ''Testi''\<rparr>,
      order_lines =
        [\<lparr>product = \<lparr>sku = ''1111'', name = ''Room'', tax_percentage = 24\<rparr>, quantity = 1\<rparr>,
         \<lparr>product = \<lparr>sku = ''1212'', name = ''Coffee'', tax_percentage = 14\<rparr>, quantity = 2\<rparr>],
      log_entries = []\<rparr>"

definition example_env :: env where
  "example_env =
     \<lparr>hashlib_sha256 = (\<lambda>s. s),
      get_price_for_reservation = (\<lambda>p res. 10),
      price_as_sub_units = (\<lambda>x. \<lfloor>x * 100\<rfloor>),
      requests_post = (\<lambda>url payload. Response 200 Map.empty)\<rparr>"

definition unavailable_env :: env where
  "unavailable_env = example_env\<lparr>requests_post := (\<lambda>url payload. Response 500 Map.empty)\<rparr>"

definition unreachable_env :: env where
  "unreachable_env = example_env\<lparr>requests_post := (\<lambda>url payload. RequestException)\<rparr>"

definition example_world :: world where
  "example_world = \<lparr>orders = [''abc123'' \<mapsto> order_with_products], requests_sent = []\<rparr>"

text \<open>
  A callback request for the order \<open>abc123\<close> as the tests send it, with the checksum of
  its parameters under the stand-in hash function, and a database in which this order
  has expired.
\<close>

definition signed_request :: "string \<Rightarrow> string \<Rightarrow> request" where
  "signed_request m status_code =
     (let params =
            [''Id'' \<mapsto> ''abc123'', ''Status'' \<mapsto> status_code, ''Reference'' \<mapsto> ''123'',
             ''Hash'' \<mapsto> computeChecksum (\<lambda>s. s)
                          [PyStr ''abc123'', PyStr status_code, PyStr ''123''] (PyStr ''123'')]
      in \<lparr>http_method = m,
          GET = (if m = ''POST'' then Map.empty else params),
          POST = (if m = ''POST'' then params else Map.empty)\<rparr>)"

definition expired_world :: world where
  "expired_world =
     \<lparr>orders = [''abc123'' \<mapsto> order_with_products\<lparr>state := EXPIRED\<rparr>], requests_sent = []\<rparr>"

section \<open>Properties\<close>

subsection \<open>Hexadecimal digests\<close>

lemma of_char_div_16: "(of_char c :: nat) div 16 < 16"
proof -
  have "(of_char c :: nat) < 16 * 16"
    using nat_of_char_less_256 [of c] by simp
  then show ?thesis
    by (rule less_mult_imp_div_less)
qed

lemma of_char_hex_char:
  "n < 16 \<Longrightarrow> (of_char (hex_char n) :: nat) = (if n < 10 then 48 + n else 87 + n)"
  by (simp add: hex_char_def)

lemma hex_char_ascii: "n < 16 \<Longrightarrow> (of_char (hex_char n) :: nat) < 128"
  by (simp add: of_char_hex_char)

lemma hexdigest_Nil: "hexdigest [] = []"
  by (simp add: hexdigest_def)

lemma hexdigest_Cons:
  "hexdigest (b # bs) =
     hex_char (of_char b div 16) # hex_char (of_char b mod 16) # hexdigest bs"
  by (simp add: hexdigest_def)

lemma isascii_hexdigest: "isascii (hexdigest d)"
proof (induction d)
  case Nil
  show ?case by (simp add: hexdigest_Nil isascii_def)
next
  case (Cons b bs)
  have hi: "(of_char (hex_char (of_char b div 16)) :: nat) < 128"
    by (rule hex_char_ascii [OF of_char_div_16])
  have lo: "(of_char (hex_char (of_char b mod 16)) :: nat) < 128"
    by (rule hex_char_ascii) simp
  from Cons hi lo show ?case
    by (simp add: hexdigest_Cons isascii_def)
qed

lemma hex_char_inj:
  assumes "a < 16" and "b < 16" and "hex_char a = hex_char b"
  shows "a = b"
proof -
  have "(of_char (hex_char a) :: nat) = of_char (hex_char b)"
    using assms(3) by simp
  then show ?thesis
    using assms(1,2) by (simp add: of_char_hex_char split: if_splits)
qed

lemma hex_pair_inj:
  assumes "hex_char (of_char x div 16) = hex_char (of_char y div 16)"
    and "hex_char (of_char x mod 16) = hex_char (of_char y mod 16)"
  shows "x = y"
proof -
  have d: "(of_char x :: nat) div 16 = of_char y div 16"
    using assms(1) by (rule hex_char_inj [OF of_char_div_16 of_char_div_16])
  have m: "(of_char x :: nat) mod 16 = of_char y mod 16"
    using assms(2) by (intro hex_char_inj) simp_all
  have "(of_char x :: nat) = of_char y"
    using d m by (metis div_mult_mod_eq)
  then show ?thesis
    by simp
qed

lemma hexdigest_inj: "hexdigest a = hexdigest b \<Longrightarrow> a = b"
proof (induction a arbitrary: b)
  case Nil
  then show ?case by (cases b) (simp_all add: hexdigest_Cons hexdigest_Nil)
next
  case (Cons x xs)
  then obtain y ys where b: "b = y # ys"
    by (cases b) (simp_all add: hexdigest_Cons hexdigest_Nil)
  from Cons.prems b have h: "hex_char (of_char x div 16) = hex_char (of_char y div 16)"
    and l: "hex_char (of_char x mod 16) = hex_char (of_char y mod 16)"
    and t: "hexdigest xs = hexdigest ys"
    by (simp_all add: hexdigest_Cons)
  have "x = y" using h l by (rule hex_pair_inj)
  with Cons.IH [OF t] b show ?case by simp
qed

lemma join_snoc: "xs \<noteq> [] \<Longrightarrow> join sep (xs @ [y]) = join sep xs @ sep @ y"
  by (induction sep xs rule: join.induct) simp_all

subsection \<open>The checksum engine\<close>

lemma calculate_checksum_eq:
  "calculate_checksum sha256 vals secret = (computeChecksum sha256 vals secret, vals @ [secret])"
  by (simp add: calculate_checksum_def computeChecksum_def)

lemma map_filter_upd_other:
  "k \<notin> set params \<Longrightarrow> List.map_filter (data(k \<mapsto> v)) params = List.map_filter data params"
  by (induction params) (auto split: option.splits)

lemma verifyChecksum_computeChecksum:
  "verifyChecksum sha256 (PyStr (computeChecksum sha256 vals secret)) vals secret = Inr True"
  by (simp add: verifyChecksum_def computeChecksum_def isascii_hexdigest)

lemma validate_payload_eq:
  "validate_payload sha256 self data params =
     (case data ''Hash'' of
        None \<Rightarrow> Inl KeyError
      | Some received \<Rightarrow>
          verifyChecksum sha256 received (List.map_filter data params)
            (config_get self RESPA_PAYMENTS_CEEPOS_API_SECRET))"
  by (simp add: validate_payload_def verifyChecksum_def calculate_checksum_eq
      split: option.splits sum.splits)

text \<open>
  C6. For every sequence of values and every secret, verifying the checksum that
  \<open>computeChecksum\<close> (the digest that \<open>calculate_checksum\<close> returns) produced over the same
  values and secret succeeds. The verification of the code, \<open>_validate_payload\<close>, is
  \<open>verifyChecksum\<close> at the received \<open>Hash\<close>, over the values of the checksum parameters
  that the message has; so a response that carries the checksum of its own checksum
  parameters validates. The comparison never raises here, since a hexadecimal digest is
  an ASCII string.
\<close>

theorem checksum_roundtrip:
  "verifyChecksum sha256 (PyStr (computeChecksum sha256 vals secret)) vals secret = Inr True
   \<and> fst (calculate_checksum sha256 vals secret) = computeChecksum sha256 vals secret
   \<and> validate_payload sha256 self data params =
       (case data ''Hash'' of
          None \<Rightarrow> Inl KeyError
        | Some received \<Rightarrow>
            verifyChecksum sha256 received (List.map_filter data params)
              (config_get self RESPA_PAYMENTS_CEEPOS_API_SECRET))
   \<and> validate_ceepos_response sha256 self
         (response(''Hash'' \<mapsto> PyStr (fst (calculate_checksum sha256
            (List.map_filter response RESPONSE_CHECKSUM_PARAMS)
            (config_get self RESPA_PAYMENTS_CEEPOS_API_SECRET))))) = Inr True"
proof -
  have "''Hash'' \<notin> set RESPONSE_CHECKSUM_PARAMS"
    by (simp add: RESPONSE_CHECKSUM_PARAMS_def)
  then have "validate_ceepos_response sha256 self
         (response(''Hash'' \<mapsto> PyStr (fst (calculate_checksum sha256
            (List.map_filter response RESPONSE_CHECKSUM_PARAMS)
            (config_get self RESPA_PAYMENTS_CEEPOS_API_SECRET))))) = Inr True"
    by (simp add: validate_ceepos_response_def validate_payload_eq map_filter_upd_other
        calculate_checksum_eq verifyChecksum_computeChecksum)
  then show ?thesis
    using verifyChecksum_computeChecksum [of sha256 vals secret]
      validate_payload_eq [of sha256 self data params]
    by (simp add: calculate_checksum_eq)
qed

lemma join_secret_twice:
  "join ''&'' (map str (vals @ [secret, secret])) =
     join ''&'' (map str (vals @ [secret])) @ ''&'' @ str secret"
proof -
  have "map str (vals @ [secret, secret]) = map str (vals @ [secret]) @ [str secret]"
    by simp
  moreover have "map str (vals @ [secret]) \<noteq> []"
    by simp
  ultimately show ?thesis
    using join_snoc [of "map str (vals @ [secret])" "''&''" "str secret"] by simp
qed

text \<open>
  C10. \<open>calculate_checksum\<close> appends the secret to the list it is given: after a call the
  list is the old one with the secret as its last element. A second call with the same
  list object and the same secret therefore hashes the message of the first call
  followed by \<open>&\<close> and the secret once more, which is a different message; the two
  digests differ exactly when the hash function does not collide on these two messages.
\<close>

theorem calculate_checksum_appends_secret:
  assumes "calculate_checksum sha256 vals secret = (d1, vals1)"
    and "calculate_checksum sha256 vals1 secret = (d2, vals2)"
  shows "vals1 = vals @ [secret] \<and> last vals1 = secret
    \<and> vals2 = vals @ [secret, secret]
    \<and> d1 = hexdigest (sha256 (join ''&'' (map str vals1)))
    \<and> d2 = hexdigest (sha256 (join ''&'' (map str vals1) @ ''&'' @ str secret))
    \<and> join ''&'' (map str vals1) @ ''&'' @ str secret \<noteq> join ''&'' (map str vals1)
    \<and> (d2 \<noteq> d1) =
        (sha256 (join ''&'' (map str vals1) @ ''&'' @ str secret)
           \<noteq> sha256 (join ''&'' (map str vals1)))"
proof -
  from assms(1) have v1: "vals1 = vals @ [secret]"
    and d1: "d1 = hexdigest (sha256 (join ''&'' (map str vals1)))"
    by (auto simp add: calculate_checksum_def Let_def)
  from assms(2) v1 have v2: "vals2 = vals @ [secret, secret]"
    and d2': "d2 = hexdigest (sha256 (join ''&'' (map str (vals @ [secret, secret]))))"
    by (auto simp add: calculate_checksum_def Let_def)
  have d2: "d2 = hexdigest (sha256 (join ''&'' (map str vals1) @ ''&'' @ str secret))"
    using d2' v1 by (simp only: join_secret_twice)
  have "(d2 \<noteq> d1) =
        (sha256 (join ''&'' (map str vals1) @ ''&'' @ str secret)
           \<noteq> sha256 (join ''&'' (map str vals1)))"
    unfolding d1 d2 by (auto dest: hexdigest_inj)
  with v1 v2 d1 d2 show ?thesis
    by simp
qed

theorem calculate_checksum_appends_secret_witness:
  "snd (calculate_checksum (\<lambda>s. s) [PyStr ''test'', PyInt 123, PyStr ''abc123''] (PyStr ''123''))
     = [PyStr ''test'', PyInt 123, PyStr ''abc123''] @ [PyStr ''123'']
   \<and> fst (calculate_checksum (\<lambda>s. s)
        (snd (calculate_checksum (\<lambda>s. s) [PyStr ''test'', PyInt 123, PyStr ''abc123''] (PyStr ''123'')))
        (PyStr ''123''))
     \<noteq> fst (calculate_checksum (\<lambda>s. s) [PyStr ''test'', PyInt 123, PyStr ''abc123''] (PyStr ''123''))"
  using calculate_checksum_appends_secret
    [OF prod.collapse [symmetric] prod.collapse [symmetric],
      of "\<lambda>s. s" "[PyStr ''test'', PyInt 123, PyStr ''abc123'']" "PyStr ''123''"]
  by blast

subsection \<open>The initiation response interpreter\<close>







text \<open>
  C4. The mapping from the status of an initiation response to an error is total: status
  0 fails with \<open>PaymentCreationFailedError\<close>, 97 with \<open>DuplicateOrderError\<close>, 98 with
  \<open>ServiceUnavailableError\<close>, 99 with \<open>PayloadValidationError\<close>, and every status other
  than 0, 2, 97, 98, 99 (15, say, or a status that is not a number) with
  \<open>UnknownReturnCodeError\<close>.
\<close>

theorem status_to_error_total:
  assumes "response ''Status'' = Some status_code"
  shows "(status_code = PyInt 0 \<longrightarrow>
            handle_initiate_payment_response sha self response = Inl PaymentCreationFailedError)
    \<and> (status_code = PyInt 97 \<longrightarrow>
            handle_initiate_payment_response sha self response = Inl DuplicateOrderError)
    \<and> (status_code = PyInt 98 \<longrightarrow>
            handle_initiate_payment_response sha self response = Inl ServiceUnavailableError)
    \<and> (status_code = PyInt 99 \<longrightarrow>
            handle_initiate_payment_response sha self response = Inl PayloadValidationError)
    \<and> (status_code \<notin> {PyInt 0, PyInt 2, PyInt 97, PyInt 98, PyInt 99} \<longrightarrow>
            handle_initiate_payment_response sha self response = Inl UnknownReturnCodeError)"
  using assms by (simp add: handle_initiate_payment_response_def)

theorem status_to_error_total_witness:
  "handle_initiate_payment_response (\<lambda>s. s) payment_provider
     [''Status'' \<mapsto> PyInt 15, ''PaymentAddress'' \<mapsto> PyStr ''https://www.example.com/checkout'',
      ''Hash'' \<mapsto> PyStr ''47994b075053851153c1a87efa362840f4dd2ce20217f9b5566169677f526f62'']
     = Inl UnknownReturnCodeError
   \<and> handle_initiate_payment_response (\<lambda>s. s) payment_provider
     [''Status'' \<mapsto> PyInt 97, ''PaymentAddress'' \<mapsto> PyStr ''https://www.example.com/checkout'',
      ''Hash'' \<mapsto> PyStr ''47994b075053851153c1a87efa362840f4dd2ce20217f9b5566169677f526f62'']
     = Inl DuplicateOrderError"
  using status_to_error_total [of
      "[''Status'' \<mapsto> PyInt 15, ''PaymentAddress'' \<mapsto> PyStr ''https://www.example.com/checkout'',
      ''Hash'' \<mapsto> PyStr ''47994b075053851153c1a87efa362840f4dd2ce20217f9b5566169677f526f62'']"
      "PyInt 15" "\<lambda>s. s" payment_provider]
    status_to_error_total [of
      "[''Status'' \<mapsto> PyInt 97, ''PaymentAddress'' \<mapsto> PyStr ''https://www.example.com/checkout'',
      ''Hash'' \<mapsto> PyStr ''47994b075053851153c1a87efa362840f4dd2ce20217f9b5566169677f526f62'']"
      "PyInt 97" "\<lambda>s. s" payment_provider]
  by simp

text \<open>
  C9 as stated fails: a response whose status is 1 is not accepted, the interpreter
  raises \<open>UnknownReturnCodeError\<close>.
\<close>

theorem status_1_counterexample:
  "handle_initiate_payment_response (\<lambda>s. s) payment_provider [''Status'' \<mapsto> PyInt 1]
     = Inl UnknownReturnCodeError"
  by (simp add: handle_initiate_payment_response_def)

text \<open>
  C9, amended. In an initiation response only status 2 is success-class: for every
  response with status 1 the interpreter fails with \<open>UnknownReturnCodeError\<close>. (Status 1
  means success in the two callbacks only.)
\<close>

theorem status_1_unknown_return_code:
  "response ''Status'' = Some (PyInt 1) \<Longrightarrow>
     handle_initiate_payment_response sha self response = Inl UnknownReturnCodeError"
  by (simp add: handle_initiate_payment_response_def)

theorem status_1_unknown_return_code_witness:
  "handle_initiate_payment_response (\<lambda>s. s) payment_provider
     [''Status'' \<mapsto> PyInt 1, ''PaymentAddress'' \<mapsto> PyStr ''https://www.example.com/checkout'']
     = Inl UnknownReturnCodeError"
  using status_1_unknown_return_code [of
     "[''Status'' \<mapsto> PyInt 1, ''PaymentAddress'' \<mapsto> PyStr ''https://www.example.com/checkout'']"
     "\<lambda>s. s" payment_provider]
  by simp

subsection \<open>The payload builder\<close>

lemma dict_set_twice: "dict_set (dict_set d k v) k v' = dict_set d k v'"
  by (induction d) auto

lemma dict_set_fresh: "k \<notin> fst ` set d \<Longrightarrow> dict_set d k v = d @ [(k, v)]"
  by (induction d) auto

lemma get_product_taxcode_cases:
  "get_product_taxcode p =
     (if py_int (tax_percentage p * 1000000) = 24000000 then Inr ''24''
      else if py_int (tax_percentage p * 1000000) = 14000000 then Inr ''14''
      else if py_int (tax_percentage p * 1000000) = 10000000 then Inr ''10''
      else if py_int (tax_percentage p * 1000000) = 0 then Inr ''0''
      else Inl ValueError)"
  by (simp add: get_product_taxcode_def Let_def)


lemma extend_item_values_eq:
  "extend_item_values acc items = acc @ concat (map (map snd) items)"
  by (induction items arbitrary: acc) simp_all

lemma collect_checksum_values_eq:
  "collect_checksum_values acc payload = acc @ flattened_values payload"
  by (induction payload arbitrary: acc)
     (auto simp add: flattened_values_def extend_item_values_eq split: pyval.splits)

lemma loop_supported:
  assumes "\<forall>l\<in>set lines. \<exists>c. get_product_taxcode (product l) = Inr c"
  shows "payload_add_products_loop env res payload items lines =
     Inr (if lines = [] then payload
          else dict_set payload ''Products'' (ItemList (items @ product_items env res lines)))"
  using assms
proof (induction lines arbitrary: payload items)
  case Nil
  show ?case by simp
next
  case (Cons l ls)
  from Cons.prems obtain c where c: "get_product_taxcode (product l) = Inr c"
    by auto
  from Cons.prems have rest: "\<forall>l\<in>set ls. \<exists>c. get_product_taxcode (product l) = Inr c"
    by simp
  show ?case
    using c Cons.IH [OF rest]
    by (simp add: Let_def product_items_def product_item_def dict_set_twice)
qed



lemma supported_tax_taxcode:
  "py_int (tax_percentage p * 1000000) \<in> {24000000, 14000000, 10000000, 0} \<Longrightarrow>
     \<exists>c. get_product_taxcode p = Inr c"
  by (auto simp add: get_product_taxcode_cases)


lemma payload_add_products_supported:
  assumes "order_lines ord \<noteq> []"
    and "\<forall>l\<in>set (order_lines ord).
           py_int (tax_percentage (product l) * 1000000) \<in> {24000000, 14000000, 10000000, 0}"
  shows "payload_add_products env payload ord =
           Inr (dict_set payload ''Products''
                  (ItemList (product_items env (reservation ord) (order_lines ord))))"
proof -
  from assms(2) have "\<forall>l\<in>set (order_lines ord). \<exists>c. get_product_taxcode (product l) = Inr c"
    using supported_tax_taxcode by blast
  from loop_supported [OF this] assms(1) show ?thesis
    by (simp add: payload_add_products_def)
qed

lemma initiate_payment_payload_supported:
  assumes "order_lines ord \<noteq> []"
    and "\<forall>l\<in>set (order_lines ord).
           py_int (tax_percentage (product l) * 1000000) \<in> {24000000, 14000000, 10000000, 0}"
  shows "initiate_payment_payload env self ord =
     Inr (initiation_fields env self ord @
          [(''Hash'', Scalar (PyStr (computeChecksum (hashlib_sha256 env)
              (flattened_values (initiation_fields env self ord))
              (config_get self RESPA_PAYMENTS_CEEPOS_API_SECRET))))])"
  by (simp add: initiate_payment_payload_def payload_add_products_supported [OF assms]
      payload_add_customer_def payload_add_return_and_notification_urls_def
      payload_add_checksum_def collect_checksum_values_eq calculate_checksum_eq
      initiation_fields_def Let_def)





lemma order_with_products_supported:
  "order_lines order_with_products \<noteq> [] \<and>
   (\<forall>l\<in>set (order_lines order_with_products).
      py_int (tax_percentage (product l) * 1000000) \<in> {24000000, 14000000, 10000000, 0})"
  by (simp add: order_with_products_def py_int_def)







lemma initiate_payment_orders: "orders (snd (initiate_payment env self w ord)) = orders w"
  by (simp add: initiate_payment_def Let_def split: sum.splits post_result.splits)

text \<open>
  C8. When the payload has been built and the network call raises (no connection, a
  timeout) or answers with an HTTP error status (400 to 599), \<open>initiate_payment\<close> raises
  \<open>ServiceUnavailableError\<close>, and the orders are what they were before the call: the only
  change of state is the record of the request that was sent.
\<close>

theorem network_failure_is_service_unavailable:
  assumes "initiate_payment_payload env self ord = Inr payload"
    and "requests_post env (config_get self RESPA_PAYMENTS_CEEPOS_API_URL) payload = RequestException
         \<or> (\<exists>status_code body.
               requests_post env (config_get self RESPA_PAYMENTS_CEEPOS_API_URL) payload =
                 Response status_code body
               \<and> 400 \<le> status_code \<and> status_code < 600)"
  shows "fst (initiate_payment env self w ord) = Inl ServiceUnavailableError
    \<and> orders (snd (initiate_payment env self w ord)) = orders w
    \<and> snd (initiate_payment env self w ord) =
        w\<lparr>requests_sent :=
            requests_sent w @ [(config_get self RESPA_PAYMENTS_CEEPOS_API_URL, payload)]\<rparr>"
  using assms by (auto simp add: initiate_payment_def Let_def)

theorem network_failure_is_service_unavailable_witness:
  "fst (initiate_payment unavailable_env payment_provider example_world order_with_products)
     = Inl ServiceUnavailableError
   \<and> orders (snd (initiate_payment unavailable_env payment_provider example_world
        order_with_products)) = orders example_world
   \<and> fst (initiate_payment unreachable_env payment_provider example_world order_with_products)
     = Inl ServiceUnavailableError
   \<and> orders (snd (initiate_payment unreachable_env payment_provider example_world
        order_with_products)) = orders example_world"
proof -
  note s = order_with_products_supported
  from initiate_payment_payload_supported [OF s [THEN conjunct1] s [THEN conjunct2]]
  obtain p1 p2 where p1: "initiate_payment_payload unavailable_env payment_provider
      order_with_products = Inr p1"
    and p2: "initiate_payment_payload unreachable_env payment_provider
      order_with_products = Inr p2"
    by blast
  have n1: "requests_post unavailable_env
        (config_get payment_provider RESPA_PAYMENTS_CEEPOS_API_URL) p1 = RequestException
     \<or> (\<exists>status_code body. requests_post unavailable_env
          (config_get payment_provider RESPA_PAYMENTS_CEEPOS_API_URL) p1 = Response status_code body
          \<and> 400 \<le> status_code \<and> status_code < 600)"
    by (simp add: unavailable_env_def)
  have n2: "requests_post unreachable_env
        (config_get payment_provider RESPA_PAYMENTS_CEEPOS_API_URL) p2 = RequestException
     \<or> (\<exists>status_code body. requests_post unreachable_env
          (config_get payment_provider RESPA_PAYMENTS_CEEPOS_API_URL) p2 = Response status_code body
          \<and> 400 \<le> status_code \<and> status_code < 600)"
    by (simp add: unreachable_env_def)
  from network_failure_is_service_unavailable [OF p1 n1, of example_world]
    network_failure_is_service_unavailable [OF p2 n2, of example_world]
  show ?thesis
    by simp
qed

subsection \<open>The callback handlers\<close>

lemma set_state_error: "set_state ord s msg = Inl e \<Longrightarrow> e = OrderStateTransitionError"
  by (simp add: set_state_def split: if_splits)

lemma set_state_expired:
  "state ord = EXPIRED \<Longrightarrow> s \<noteq> EXPIRED \<Longrightarrow> set_state ord s msg = Inl OrderStateTransitionError"
  by (simp add: set_state_def)

text \<open>
  Whenever the validation of the request returns (the checksum is right or wrong), the
  notify handler acknowledges with HTTP 200: an unknown order, an illegal transition and
  an unknown status are all absorbed.
\<close>

lemma handle_notify_request_acknowledges:
  assumes "validate_ceepos_request sha self (request self) = Inr valid"
  shows "fst (handle_notify_request sha self w) = Inr (HttpResponse 200)"
proof -
  have c: "fst (case set_state ord s msg of
                  Inr ord' \<Rightarrow> (Inr (HttpResponse 200), save w oid ord')
                | Inl OrderStateTransitionError \<Rightarrow> (Inr (HttpResponse 200), w)
                | Inl e \<Rightarrow> (Inl e, w)) = Inr (HttpResponse 200)" for ord s msg oid
    by (cases "set_state ord s msg") (auto dest: set_state_error)
  show ?thesis
    using assms
    by (simp add: handle_notify_request_def Let_def c split: option.splits prod.splits)
qed

text \<open>
  C3 does not hold for every request: a notify request that has no \<open>Hash\<close> parameter
  makes \<^verbatim>\<open>data["Hash"]\<close> in \<open>_validate_payload\<close> raise \<open>KeyError\<close>, which
  \<open>handle_notify_request\<close> does not catch, so no acknowledgement is returned.
\<close>

theorem handle_notify_request_missing_hash:
  "fst (handle_notify_request sha
         (create_ceepos_provider
            \<lparr>http_method = ''POST'', GET = Map.empty,
             POST = [''Id'' \<mapsto> ''abc123'', ''Status'' \<mapsto> ''1'', ''Reference'' \<mapsto> ''123'']\<rparr>)
         w) = Inl KeyError"
  by (simp add: handle_notify_request_def create_ceepos_provider_def validate_ceepos_request_def
      validate_payload_def)



text \<open>A \<open>Hash\<close> that is not an ASCII string raises in \<^verbatim>\<open>hmac.compare_digest\<close>.\<close>

lemma handle_notify_request_non_ascii_hash:
  "fst (handle_notify_request sha
         (create_ceepos_provider
            \<lparr>http_method = ''POST'', GET = Map.empty,
             POST = [''Id'' \<mapsto> ''abc123'', ''Status'' \<mapsto> ''1'', ''Reference'' \<mapsto> ''123'',
                     ''Hash'' \<mapsto> [CHR 0xC3, CHR 0xA4]]\<rparr>)
         w) = Inl TypeError"
  by (simp add: handle_notify_request_def create_ceepos_provider_def validate_ceepos_request_def
      validate_payload_def isascii_def)

lemma handle_notify_request_expired:
  assumes "orders w oid = Some ord" and "state ord = EXPIRED"
  shows "\<exists>ord'. orders (snd (handle_notify_request sha self w)) oid = Some ord'
           \<and> state ord' = EXPIRED"
proof -
  have same: "\<exists>ord'. orders w oid = Some ord' \<and> state ord' = EXPIRED"
    using assms by simp
  show ?thesis
  proof (cases "validate_ceepos_request sha self (request self)")
    case (Inl e)
    with same show ?thesis by (simp add: handle_notify_request_def Let_def)
  next
    case (Inr valid)
    show ?thesis
    proof (cases valid)
      case False
      with Inr same show ?thesis
        by (simp add: handle_notify_request_def Let_def)
    next
      case True
      show ?thesis
      proof (cases "case POST (request self) ''Id'' of None \<Rightarrow> None
                   | Some oid \<Rightarrow> map_option (Pair oid) (orders w oid)")
        case None
        with Inr True same show ?thesis
          by (simp add: handle_notify_request_def Let_def)
      next
        case (Some p)
        obtain oid' o' where p: "p = (oid', o')"
          by (cases p)
        with Some have o': "orders w oid' = Some o'"
          by (auto split: option.splits)
        show ?thesis
        proof (cases "oid' = oid")
          case eq: True
          with o' assms have "state o' = EXPIRED"
            by simp
          with Inr True Some p same show ?thesis
            by (simp add: handle_notify_request_def Let_def set_state_def)
        next
          case ne: False
          with Inr True Some p same show ?thesis
            by (simp add: handle_notify_request_def Let_def set_state_def save_def)
        qed
      qed
    qed
  qed
qed

lemma handle_success_request_expired:
  assumes "orders w oid = Some ord" and "state ord = EXPIRED"
  shows "\<exists>ord'. orders (snd (handle_success_request sha self w)) oid = Some ord'
           \<and> state ord' = EXPIRED"
proof -
  have same: "\<exists>ord'. orders w oid = Some ord' \<and> state ord' = EXPIRED"
    using assms by simp
  show ?thesis
  proof (cases "validate_ceepos_request sha self (request self)")
    case (Inl e)
    with same show ?thesis by (simp add: handle_success_request_def Let_def)
  next
    case (Inr valid)
    show ?thesis
    proof (cases valid)
      case False
      with Inr same show ?thesis
        by (simp add: handle_success_request_def Let_def)
    next
      case True
      show ?thesis
      proof (cases "GET (request self) ''Id''")
        case None
        with Inr True same show ?thesis
          by (simp add: handle_success_request_def Let_def)
      next
        case (Some oid')
        show ?thesis
        proof (cases "orders w oid'")
          case None
          with Inr True Some same show ?thesis
            by (simp add: handle_success_request_def Let_def)
        next
          case o': (Some o')
          show ?thesis
          proof (cases "GET (request self) ''Status''")
            case None
            with Inr True Some o' same show ?thesis
              by (simp add: handle_success_request_def Let_def)
          next
            case st: (Some status_code)
            show ?thesis
            proof (cases "oid' = oid")
              case eq: True
              with o' assms have "state o' = EXPIRED"
                by simp
              with Inr True Some o' st eq show ?thesis
                by (simp add: handle_success_request_def Let_def set_state_def save_def
                    create_log_entry_def)
            next
              case ne: False
              with Inr True Some o' st same show ?thesis
                by (simp add: handle_success_request_def Let_def set_state_def save_def)
            qed
          qed
        qed
      qed
    qed
  qed
qed


lemma handle_notify_request_expired_target:
  assumes "orders w oid = Some ord" and "state ord = EXPIRED"
    and "validate_ceepos_request sha self (request self) = Inr True"
    and "POST (request self) ''Id'' = Some oid"
  shows "handle_notify_request sha self w = (Inr (HttpResponse 200), w)"
  using assms by (simp add: handle_notify_request_def Let_def set_state_def)

lemma handle_success_request_expired_target:
  assumes "orders w oid = Some ord" and "state ord = EXPIRED"
    and "validate_ceepos_request sha self (request self) = Inr True"
    and "GET (request self) ''Id'' = Some oid"
    and "GET (request self) ''Status'' = Some status_code"
  shows "fst (handle_success_request sha self w) = Inr (UiRedirectFailure (Some (order_number ord)))"
  using assms
  by (simp add: handle_success_request_def Let_def set_state_def ui_redirect_failure_def
      create_log_entry_def)

text \<open>
  C5. An order that is EXPIRED is still EXPIRED after a user-return callback and after a
  notify callback, whatever the request and its status code: the transition into
  CONFIRMED or REJECTED is illegal and is absorbed. The notify handler acknowledges with
  HTTP 200 whenever the validation of the request returns, and for a valid request
  for the expired order it changes nothing at all; the return handler answers a valid
  request for the expired order, with any status code, by the failure redirect.
\<close>

theorem expired_order_is_absorbing:
  assumes "orders w oid = Some ord" and "state ord = EXPIRED"
  shows "(\<exists>ord'. orders (snd (handle_success_request sha self w)) oid = Some ord'
            \<and> state ord' = EXPIRED)
    \<and> (\<exists>ord'. orders (snd (handle_notify_request sha self w)) oid = Some ord'
            \<and> state ord' = EXPIRED)
    \<and> (\<forall>valid. validate_ceepos_request sha self (request self) = Inr valid \<longrightarrow>
          fst (handle_notify_request sha self w) = Inr (HttpResponse 200))
    \<and> (validate_ceepos_request sha self (request self) = Inr True
          \<and> POST (request self) ''Id'' = Some oid \<longrightarrow>
          handle_notify_request sha self w = (Inr (HttpResponse 200), w))
    \<and> (\<forall>status_code.
          validate_ceepos_request sha self (request self) = Inr True
          \<and> GET (request self) ''Id'' = Some oid
          \<and> GET (request self) ''Status'' = Some status_code \<longrightarrow>
          fst (handle_success_request sha self w) =
            Inr (UiRedirectFailure (Some (order_number ord))))"
  using handle_success_request_expired [OF assms, of sha self]
    handle_notify_request_expired [OF assms, of sha self]
    handle_notify_request_acknowledges [of sha self _ w]
    handle_notify_request_expired_target [OF assms, of sha self]
    handle_success_request_expired_target [OF assms, of sha self]
  by blast

lemma signed_request_valid:
  "validate_ceepos_request (\<lambda>s. s) (create_ceepos_provider (signed_request m status_code))
     (signed_request m status_code) = Inr True"
proof -
  have "verifyChecksum (\<lambda>s. s)
          (PyStr (computeChecksum (\<lambda>s. s) [PyStr ''abc123'', PyStr status_code, PyStr ''123'']
             (PyStr ''123'')))
          [PyStr ''abc123'', PyStr status_code, PyStr ''123''] (PyStr ''123'') = Inr True"
    by (rule verifyChecksum_computeChecksum)
  then show ?thesis
    by (simp add: validate_ceepos_request_def validate_payload_eq signed_request_def
        create_ceepos_provider_def provider_base_config_def config_get_def
        REQUEST_CHECKSUM_PARAMS_def RESPA_PAYMENTS_CEEPOS_API_SECRET_def Let_def)
qed

theorem expired_order_is_absorbing_witness:
  "handle_notify_request (\<lambda>s. s) (create_ceepos_provider (signed_request ''POST'' ''1''))
      expired_world = (Inr (HttpResponse 200), expired_world)
   \<and> fst (handle_success_request (\<lambda>s. s) (create_ceepos_provider (signed_request ''GET'' ''0''))
        expired_world) = Inr (UiRedirectFailure (Some ''abc123''))
   \<and> map_option state
        (orders (snd (handle_success_request (\<lambda>s. s)
           (create_ceepos_provider (signed_request ''GET'' ''0'')) expired_world)) ''abc123'')
       = Some EXPIRED"
proof -
  have o: "orders expired_world ''abc123'' = Some (order_with_products\<lparr>state := EXPIRED\<rparr>)"
    by (simp add: expired_world_def)
  have s: "state (order_with_products\<lparr>state := EXPIRED\<rparr>) = EXPIRED"
    by simp
  have n: "order_number (order_with_products\<lparr>state := EXPIRED\<rparr>) = ''abc123''"
    by (simp add: order_with_products_def)
  have r: "request (create_ceepos_provider (signed_request m c)) = signed_request m c" for m c
    by (simp add: create_ceepos_provider_def)
  have p: "POST (signed_request ''POST'' ''1'') ''Id'' = Some ''abc123''"
    by (simp add: signed_request_def)
  have g: "GET (signed_request ''GET'' ''0'') ''Id'' = Some ''abc123''"
    "GET (signed_request ''GET'' ''0'') ''Status'' = Some ''0''"
    by (simp_all add: signed_request_def)
  from expired_order_is_absorbing [OF o s, of "\<lambda>s. s"
        "create_ceepos_provider (signed_request ''POST'' ''1'')"]
    expired_order_is_absorbing [OF o s, of "\<lambda>s. s"
        "create_ceepos_provider (signed_request ''GET'' ''0'')"]
    signed_request_valid [of "''POST''" "''1''"] signed_request_valid [of "''GET''" "''0''"]
    r p g n
  show ?thesis
    by auto
qed


text \<open>The two transitions of the tests: a WAITING order is confirmed by status 1.\<close>

lemma handle_notify_request_confirms_waiting:
  "map_option state
     (orders (snd (handle_notify_request (\<lambda>s. s)
        (create_ceepos_provider (signed_request ''POST'' ''1'')) example_world)) ''abc123'')
   = Some CONFIRMED"
  using signed_request_valid [of "''POST''" "''1''"]
  by (simp add: handle_notify_request_def Let_def create_ceepos_provider_def set_state_def
      save_def example_world_def order_with_products_def signed_request_def)

subsection \<open>The messages of the test suite\<close>

text \<open>
  The strings that are hashed for the values of \<^verbatim>\<open>test_calculate_checksum_success\<close> and
  for the payload of \<^verbatim>\<open>test_payload_add_checksum_success\<close>, with the secret \<open>123\<close>. Their
  SHA-256 digests are the ones the two tests expect.
\<close>

lemma test_calculate_checksum_message:
  "join ''&'' (map str (snd (calculate_checksum sha
      [PyStr ''test'', PyInt 123, PyStr ''abc123''] (PyStr ''123''))))
   = ''test&123&abc123&123''"
  by (simp add: calculate_checksum_def) code_simp

lemma test_payload_add_checksum_message:
  "join ''&'' (map str (collect_checksum_values []
      [(''ApiVersion'', Scalar (PyStr ''2.1.2'')),
       (''Source'', Scalar (PyStr ''examplecom'')),
       (''Id'', Scalar (PyStr ''12345'')),
       (''Mode'', Scalar (PyInt 3)),
       (''Action'', Scalar (PyStr ''new payment'')),
       (''Description'', Scalar (PyStr ''Charlie Customer'')),
       (''Products'', ItemList
          [[(''Code'', PyStr ''1111''), (''Amount'', PyInt 1), (''Price'', PyInt 100),
            (''Description'', PyStr ''Product-specific info'')],
           [(''Code'', PyStr ''1212''), (''Price'', PyInt 150), (''Taxcode'', PyStr ''10'')]]),
       (''Email'', Scalar (PyStr ''charlie.customer@example.com'')),
       (''FirstName'', Scalar (PyStr ''Charlie'')),
       (''LastName'', Scalar (PyStr ''Customer'')),
       (''ReturnAddress'', Scalar (PyStr ''https://www.example.com/return-path'')),
       (''NotificationAddress'',
          Scalar (PyStr ''https://www.example.com/notification-path''))]
      @ [PyStr ''123'']))
   = ''2.1.2&examplecom&12345&3&new payment&Charlie Customer&1111&1&100&Product-specific info&1212&150&10&charlie.customer@example.com&Charlie&Customer&https://www.example.com/return-path&https://www.example.com/notification-path&123''"
  by code_simp

end
